theory Spec2Isabelle
  imports Complex_Main "HOL-Library.Char_ord" "HOL-Library.List_Lexorder"
begin

section \<open>Data model of \<^verbatim>\<open>src/index.tsx\<close>\<close>

text \<open>
  The TypeScript interfaces become records. A \<^verbatim>\<open>string\<close> is a list of bytes
  (text outside ASCII is written in UTF-8). A \<^verbatim>\<open>number\<close> is modelled by an
  integer: monetary amounts are finite, and the rounding, the infinities and NaN of IEEE
  doubles are outside this embedding. The fields \<^verbatim>\<open>from\<close>, \<open>to\<close> and \<open>price\<close> of a
  flight leg carry the prefix \<open>leg_\<close> (\<open>from\<close> is a keyword here, and \<open>price\<close> is
  also a field of \<^verbatim>\<open>PriceHistoryPoint\<close>).
\<close>

record FlightLeg =
  leg_from :: string
  leg_to :: string
  airline :: string
  departure :: string
  arrival :: string
  leg_price :: int

record HotelStay =
  city :: string
  name :: string
  days :: int
  pricePerNight :: int
  checkInDate :: string

record TripResults =
  flights :: "FlightLeg list"
  accommodations :: "HotelStay list"

record StoredSearch =
  timestamp :: string
  totalFlightPrice :: int
  results :: TripResults

text \<open>\<^verbatim>\<open>change: number | null\<close>: \<open>None\<close> is \<^verbatim>\<open>null\<close>.\<close>

record PriceHistoryPoint =
  date :: string
  price :: int
  change :: "int option"


section \<open>The bounded history\<close>

text \<open>
  \<^verbatim>\<open>arr.slice(-n)\<close> for a positive \<open>n\<close>: the start index is
  \<^verbatim>\<open>max(arr.length - n, 0)\<close> and the end is the length. Subtraction on \<open>nat\<close>
  stops at zero, which is that maximum.
\<close>

definition slice_from_end :: "nat \<Rightarrow> 'a list \<Rightarrow> 'a list" where
  "slice_from_end n arr = drop (length arr - n) arr"

text \<open>
  The state updater of \<^verbatim>\<open>handleSearch\<close> (lines 510 to 514):
  \<^verbatim>\<open>[...prevHistory, newHistoryEntry].slice(-7)\<close>.
\<close>

definition updatedHistory :: "StoredSearch list \<Rightarrow> StoredSearch \<Rightarrow> StoredSearch list" where
  "updatedHistory prevHistory newHistoryEntry = slice_from_end 7 (prevHistory @ [newHistoryEntry])"

text \<open>\<^verbatim>\<open>data.flights.reduce((sum, leg) => sum + leg.price, 0)\<close>\<close>

definition flightsTotal :: "TripResults \<Rightarrow> int" where
  "flightsTotal data = foldl (\<lambda>sum leg. sum + leg_price leg) 0 (flights data)"

text \<open>The entry built at lines 504 to 508; \<open>now\<close> is \<^verbatim>\<open>new Date().toISOString()\<close>.\<close>

definition newHistoryEntry :: "string \<Rightarrow> TripResults \<Rightarrow> StoredSearch" where
  "newHistoryEntry now data =
     \<lparr>timestamp = now, totalFlightPrice = flightsTotal data, results = data\<rparr>"

text \<open>
  Line 496: the price of the last stored search, or \<^verbatim>\<open>null\<close> when there is none.
\<close>

definition previousPrice :: "StoredSearch list \<Rightarrow> int option" where
  "previousPrice history =
     (if length history > 0
      then Some (totalFlightPrice (history ! (length history - 1)))
      else None)"

text \<open>
  Lines 576 to 584: \<^verbatim>\<open>searchHistory.map((item, index, arr) => ...)\<close>. The callback
  is \<open>chartPoint\<close>; \<open>arr\<close> is the array being mapped.
\<close>

definition chartPoint :: "StoredSearch list \<Rightarrow> nat \<Rightarrow> StoredSearch \<Rightarrow> PriceHistoryPoint" where
  "chartPoint arr index item =
     (let previousPrice' = (if index > 0 then Some (totalFlightPrice (arr ! (index - 1))) else None);
          change' = (case previousPrice' of
                       Some p \<Rightarrow> Some (totalFlightPrice item - p)
                     | None \<Rightarrow> None)
      in \<lparr>date = timestamp item, price = totalFlightPrice item, change = change'\<rparr>)"

definition priceHistoryForChart :: "StoredSearch list \<Rightarrow> PriceHistoryPoint list" where
  "priceHistoryForChart history =
     map (\<lambda>(index, item). chartPoint history index item)
       (zip [0 ..< length history] history)"


section \<open>Rendering a change\<close>

text \<open>
  \<^verbatim>\<open>formatCurrency\<close> wraps \<^verbatim>\<open>Intl.NumberFormat\<close>, a platform function; it is the
  parameter \<open>formatCurrency\<close> below. A \<^verbatim>\<open><span></span>\<close> is its class name, if any, and
  its text children.
\<close>

datatype span = Span "string option" "string list"

definition upArrow :: string where
  "upArrow = [CHR 0xE2, CHR 0x86, CHR 0x91]"

definition downArrow :: string where
  "downArrow = [CHR 0xE2, CHR 0x86, CHR 0x93]"

text \<open>Lines 326 to 335.\<close>

definition renderChange :: "(int \<Rightarrow> string) \<Rightarrow> int option \<Rightarrow> span" where
  "renderChange formatCurrency change' =
     (case change' of
        None \<Rightarrow> Span None [''-'']
      | Some c \<Rightarrow>
          if c = 0 then Span None [formatCurrency 0]
          else
            let isPositive = (c > 0)
            in Span (Some (if isPositive then ''price-increase'' else ''price-decrease''))
                 [if isPositive then upArrow else downArrow, '' '', formatCurrency (abs c)])"

text \<open>Lines 348 to 350: the text added to a bar's tooltip.\<close>

definition changeText :: "(int \<Rightarrow> string) \<Rightarrow> int option \<Rightarrow> string" where
  "changeText formatCurrency change' =
     (case change' of
        Some c \<Rightarrow> '' ('' @ (if c > 0 then ''+'' else '''') @ formatCurrency c @ '')''
      | None \<Rightarrow> '''')"


section \<open>The summaries\<close>

text \<open>
  \<^verbatim>\<open>getEmailSummary\<close> and \<^verbatim>\<open>getWhatsAppSummary\<close> choose one of four sentences and
  put it into the prompt. The sentences are Portuguese text with the formatted amount
  inside; the model keeps which sentence is chosen and the amount it receives.
\<close>

datatype priceAnalysis =
    FirstSearch
  | PriceRose int
  | PriceFell int
  | PriceStable

text \<open>
  \<^verbatim>\<open>if (previousPrice)\<close> tests a \<^verbatim>\<open>number | null\<close> for truthiness: \<^verbatim>\<open>null\<close> and
  \<open>0\<close> are both falsy.
\<close>

definition truthy :: "int option \<Rightarrow> bool" where
  "truthy v = (case v of None \<Rightarrow> False | Some n \<Rightarrow> n \<noteq> 0)"

text \<open>Lines 161 to 173.\<close>

definition emailPriceAnalysis :: "TripResults \<Rightarrow> int option \<Rightarrow> priceAnalysis" where
  "emailPriceAnalysis results' previousPrice' =
     (let totalFlightCost = flightsTotal results'
      in case previousPrice' of
           Some p \<Rightarrow>
             if truthy previousPrice' then
               let difference = totalFlightCost - p
               in if difference > 0 then PriceRose difference
                  else if difference < 0 then PriceFell (abs difference)
                  else PriceStable
             else FirstSearch
         | None \<Rightarrow> FirstSearch)"

text \<open>Lines 203 to 215.\<close>

definition whatsAppPriceAnalysis :: "TripResults \<Rightarrow> int option \<Rightarrow> priceAnalysis" where
  "whatsAppPriceAnalysis results' previousPrice' =
     (let totalFlightCost = flightsTotal results'
      in case previousPrice' of
           Some p \<Rightarrow>
             if truthy previousPrice' then
               let difference = totalFlightCost - p
               in if difference > 0 then PriceRose difference
                  else if difference < 0 then PriceFell (abs difference)
                  else PriceStable
             else FirstSearch
         | None \<Rightarrow> FirstSearch)"

text \<open>
  A prompt sent to the language model: which summary, the chosen sentence and the trip. The
  model service is the parameter \<open>ai\<close>: the text of its answer, or \<open>None\<close> when the
  call fails.
\<close>

datatype prompt =
    EmailPrompt priceAnalysis TripResults
  | WhatsAppPrompt priceAnalysis TripResults

definition emailFallback :: string where
  "emailFallback = ''N'' @ [CHR 0xC3, CHR 0xA3] @ ''o foi poss'' @ [CHR 0xC3, CHR 0xAD]
     @ ''vel gerar o resumo do e-mail no momento.''"

definition whatsAppFallback :: string where
  "whatsAppFallback = ''N'' @ [CHR 0xC3, CHR 0xA3] @ ''o foi poss'' @ [CHR 0xC3, CHR 0xAD]
     @ ''vel gerar o resumo do WhatsApp.''"

text \<open>Lines 160 to 200. The failure of the model call is caught inside.\<close>

definition getEmailSummary :: "(prompt \<Rightarrow> string option) \<Rightarrow> TripResults \<Rightarrow> int option \<Rightarrow> string" where
  "getEmailSummary ai results' previousPrice' =
     (case ai (EmailPrompt (emailPriceAnalysis results' previousPrice') results') of
        Some reply \<Rightarrow> reply
      | None \<Rightarrow> emailFallback)"

text \<open>
  Lines 202 to 241. Building the prompt reads
  \<^verbatim>\<open>results.flights[results.flights.length - 1].to\<close> outside the \<^verbatim>\<open>try\<close>: with no
  flight this is a property read on \<^verbatim>\<open>undefined\<close>, a TypeError that rejects the
  promise (\<open>Inl\<close>, with the engine's message).
\<close>

definition typeErrorMessage :: string where
  "typeErrorMessage = ''Cannot read properties of undefined (reading '' @ [CHR 0x27] @ ''to''
     @ [CHR 0x27] @ '')''"

definition getWhatsAppSummary ::
  "(prompt \<Rightarrow> string option) \<Rightarrow> TripResults \<Rightarrow> int option \<Rightarrow> string + string" where
  "getWhatsAppSummary ai results' previousPrice' =
     (let analysis = whatsAppPriceAnalysis results' previousPrice'
      in if flights results' = [] then Inl typeErrorMessage
         else (case ai (WhatsAppPrompt analysis results') of
                 Some reply \<Rightarrow> Inr reply
               | None \<Rightarrow> Inr whatsAppFallback))"


section \<open>The search\<close>

definition errorDefault :: string where
  "errorDefault = ''Falha ao buscar op'' @ [CHR 0xC3, CHR 0xA7, CHR 0xC3, CHR 0xB5]
     @ ''es de viagem. Por favor, tente novamente mais tarde.''"

text \<open>
  Lines 83 to 158. \<open>response\<close> is what the model service returns for the trip prompt:
  the parsed trip, or \<open>None\<close> when the call or the parsing of its answer throws. Every
  failure is rethrown as \<^verbatim>\<open>new Error(translations.errorDefault)\<close>.
\<close>

definition getTripData :: "TripResults option \<Rightarrow> string + TripResults" where
  "getTripData response =
     (case response of
        None \<Rightarrow> Inl errorDefault
      | Some data \<Rightarrow> Inr data)"

text \<open>
  The state of \<^verbatim>\<open>App\<close> that \<^verbatim>\<open>handleSearch\<close> touches, and the item
  \<^verbatim>\<open>'searchHistory'\<close> of \<^verbatim>\<open>localStorage\<close>. The state variable \<^verbatim>\<open>results\<close> is
  \<open>tripResults\<close> here (\<open>results\<close> is a field of \<open>StoredSearch\<close>), \<^verbatim>\<open>error\<close> is
  \<open>errorMessage\<close>.
\<close>

record app =
  tripResults :: "TripResults option"
  isLoading :: bool
  errorMessage :: "string option"
  searchHistory :: "StoredSearch list"
  emailSummary :: "string option"
  whatsappSummary :: "string option"
  localStorage :: "string option"

text \<open>
  Lines 485 to 525. \<open>stringify\<close> is \<^verbatim>\<open>JSON.stringify\<close> on a history, \<open>now\<close> the
  clock. \<^verbatim>\<open>err.message || translations.errorDefault\<close> replaces an empty message.
\<close>

definition handleSearch ::
  "(StoredSearch list \<Rightarrow> string) \<Rightarrow> (prompt \<Rightarrow> string option) \<Rightarrow> TripResults option \<Rightarrow> string
     \<Rightarrow> app \<Rightarrow> app" where
  "handleSearch stringify ai response now st =
     (let st1 = st\<lparr>isLoading := True, errorMessage := None, tripResults := None,
                   emailSummary := None, whatsappSummary := None\<rparr>
      in case getTripData response of
           Inl msg \<Rightarrow>
             st1\<lparr>errorMessage := Some (if msg = [] then errorDefault else msg),
                 isLoading := False\<rparr>
         | Inr data \<Rightarrow>
             let st2 = st1\<lparr>tripResults := Some data\<rparr>;
                 prev = previousPrice (searchHistory st);
                 email = getEmailSummary ai data prev;
                 whatsapp = getWhatsAppSummary ai data prev;
                 updated = updatedHistory (searchHistory st2) (newHistoryEntry now data);
                 st3 = st2\<lparr>searchHistory := updated, localStorage := Some (stringify updated)\<rparr>
             in (case whatsapp of
                   Inl msg \<Rightarrow>
                     st3\<lparr>errorMessage := Some (if msg = [] then errorDefault else msg),
                         isLoading := False\<rparr>
                 | Inr whatsapp' \<Rightarrow>
                     st3\<lparr>emailSummary := Some email, whatsappSummary := Some whatsapp',
                         isLoading := False\<rparr>))"

text \<open>The state after \<^verbatim>\<open>useState\<close> and before anything is loaded.\<close>

definition initialApp :: "string option \<Rightarrow> app" where
  "initialApp stored =
     \<lparr>tripResults = None, isLoading = False, errorMessage = None, searchHistory = [],
      emailSummary = None, whatsappSummary = None, localStorage = stored\<rparr>"

text \<open>A trip of one flight of the given price, and the entry a search for it stores.\<close>

definition tripOf :: "int \<Rightarrow> TripResults" where
  "tripOf p =
     \<lparr>flights = [\<lparr>leg_from = ''GRU'', leg_to = ''LIS'', airline = ''TAP'',
                  departure = ''2026-01-10 22:00'', arrival = ''2026-01-11 11:00'',
                  leg_price = p\<rparr>],
      accommodations = []\<rparr>"

definition searchOf :: "string \<Rightarrow> int \<Rightarrow> StoredSearch" where
  "searchOf now p = newHistoryEntry now (tripOf p)"


text \<open>
  A session: \<^verbatim>\<open>handleSearch\<close> run once for each pair of a response of the trip service and
  the clock's reading, from left to right.
\<close>

definition searches ::
  "(StoredSearch list \<Rightarrow> string) \<Rightarrow> (prompt \<Rightarrow> string option) \<Rightarrow> (TripResults option \<times> string) list
     \<Rightarrow> app \<Rightarrow> app" where
  "searches stringify ai runs st =
     foldl (\<lambda>s (response, now). handleSearch stringify ai response now s) st runs"

text \<open>
  The histories built from the empty one by the updater, where each new entry's timestamp
  is not before the last stored one. Timestamps are \<^verbatim>\<open>toISOString\<close> texts, all of the
  same width, so the order of the strings is the order of the instants.
\<close>

inductive appended_in_order :: "StoredSearch list \<Rightarrow> bool" where
  empty: "appended_in_order []"
| append: "appended_in_order h \<Longrightarrow> (h \<noteq> [] \<longrightarrow> timestamp (last h) \<le> timestamp e)
     \<Longrightarrow> appended_in_order (updatedHistory h e)"

code_pred appended_in_order .


section \<open>JSON text\<close>

text \<open>
  The history is written with \<^verbatim>\<open>JSON.stringify\<close> (line 512) and read back with
  \<^verbatim>\<open>JSON.parse\<close> (line 465). Both are functions of the JavaScript platform; the
  definitions below follow ECMA-262 (\<^verbatim>\<open>SerializeJSONProperty\<close>, \<^verbatim>\<open>QuoteJSONString\<close> and
  the JSON grammar) for the values this program stores. Neither call passes a replacer, an
  indentation or a reviver.

  A run-time value is a \<open>json\<close>. An object is the list of its properties in the order of
  their creation; the move of array-index keys to the front is not modelled (no object of
  this program has such a key). The type parameter is the type of numbers: integers for
  the values the program builds, as everywhere in this embedding, and exact rationals for
  what a JSON text denotes, since a literal such as \<^verbatim>\<open>2.5\<close> or \<^verbatim>\<open>1e-3\<close> is valid JSON.
  The rounding of a literal to a double is not modelled.
\<close>

datatype 'n json =
    JNull
  | JBool bool
  | JNumber 'n
  | JString string
  | JArray "'n json list"
  | JObject "(string \<times> 'n json) list"

text \<open>
  The run-time objects behind the interfaces. The entry of a history is created at lines
  504 to 508 with the keys in this order; for the trip, which comes out of the model
  service's JSON, the order of the interface is taken.
\<close>

definition js_of_FlightLeg :: "FlightLeg \<Rightarrow> int json" where
  "js_of_FlightLeg leg =
     JObject [(''from'', JString (leg_from leg)), (''to'', JString (leg_to leg)),
              (''airline'', JString (airline leg)), (''departure'', JString (departure leg)),
              (''arrival'', JString (arrival leg)), (''price'', JNumber (leg_price leg))]"

definition js_of_HotelStay :: "HotelStay \<Rightarrow> int json" where
  "js_of_HotelStay stay =
     JObject [(''city'', JString (city stay)), (''name'', JString (name stay)),
              (''days'', JNumber (days stay)), (''pricePerNight'', JNumber (pricePerNight stay)),
              (''checkInDate'', JString (checkInDate stay))]"

definition js_of_TripResults :: "TripResults \<Rightarrow> int json" where
  "js_of_TripResults data =
     JObject [(''flights'', JArray (map js_of_FlightLeg (flights data))),
              (''accommodations'', JArray (map js_of_HotelStay (accommodations data)))]"

definition js_of_StoredSearch :: "StoredSearch \<Rightarrow> int json" where
  "js_of_StoredSearch item =
     JObject [(''timestamp'', JString (timestamp item)),
              (''totalFlightPrice'', JNumber (totalFlightPrice item)),
              (''results'', js_of_TripResults (results item))]"

definition js_of_history :: "StoredSearch list \<Rightarrow> int json" where
  "js_of_history history = JArray (map js_of_StoredSearch history)"

text \<open>A value the program built, as the value a JSON text denotes.\<close>

definition as_parsed :: "int json \<Rightarrow> rat json" where
  "as_parsed v = map_json of_int v"

subsection \<open>Writing\<close>

text \<open>The decimal digits of a natural number, and \<^verbatim>\<open>Number::toString\<close> on an integer.\<close>

function digits :: "nat \<Rightarrow> string" where
  "digits n = (if n < 10 then [char_of (48 + n)] else digits (n div 10) @ [char_of (48 + n mod 10)])"
  by pat_completeness auto
termination
  by (relation "measure id") auto

declare digits.simps [simp del]

definition number_toString :: "int \<Rightarrow> string" where
  "number_toString n = (if n < 0 then CHR ''-'' # digits (nat (- n)) else digits (nat n))"

definition hex_digit :: "nat \<Rightarrow> char" where
  "hex_digit n = (if n < 10 then char_of (48 + n) else char_of (87 + n))"

text \<open>
  \<^verbatim>\<open>QuoteJSONString\<close>: the quote, the backslash and the characters below U+0020 are
  escaped, the five with a short escape by it and the others as \<^verbatim>\<open>\u00xx\<close> in lower
  case; every other unit of the text is copied. (An unpaired surrogate would be escaped
  too; well-formed UTF-8 has none.)
\<close>

definition escape_char :: "char \<Rightarrow> string" where
  "escape_char c =
     (if c = CHR 0x22 then [CHR 0x5C, CHR 0x22]
      else if c = CHR 0x5C then [CHR 0x5C, CHR 0x5C]
      else if c = CHR 0x08 then [CHR 0x5C, CHR ''b'']
      else if c = CHR 0x0C then [CHR 0x5C, CHR ''f'']
      else if c = CHR 0x0A then [CHR 0x5C, CHR ''n'']
      else if c = CHR 0x0D then [CHR 0x5C, CHR ''r'']
      else if c = CHR 0x09 then [CHR 0x5C, CHR ''t'']
      else if of_char c < (0x20 :: nat) then
        [CHR 0x5C, CHR ''u'', CHR ''0'', CHR ''0'',
         hex_digit (of_char c div 16), hex_digit (of_char c mod 16)]
      else [c])"

definition QuoteJSONString :: "string \<Rightarrow> string" where
  "QuoteJSONString s = CHR 0x22 # concat (map escape_char s) @ [CHR 0x22]"

fun join_commas :: "string list \<Rightarrow> string" where
  "join_commas [] = []"
| "join_commas [x] = x"
| "join_commas (x # y # ys) = x @ CHR '','' # join_commas (y # ys)"

text \<open>\<^verbatim>\<open>JSON.stringify(value)\<close> with no indentation: no white space is written.\<close>

fun JSON_stringify :: "int json \<Rightarrow> string" where
  "JSON_stringify JNull = ''null''"
| "JSON_stringify (JBool flag) = (if flag then ''true'' else ''false'')"
| "JSON_stringify (JNumber n) = number_toString n"
| "JSON_stringify (JString s) = QuoteJSONString s"
| "JSON_stringify (JArray xs) = CHR ''['' # join_commas (map JSON_stringify xs) @ '']''"
| "JSON_stringify (JObject kvs) =
     CHR ''{'' # join_commas (map (\<lambda>(k, v). QuoteJSONString k @ CHR '':'' # JSON_stringify v) kvs)
       @ ''}''"

text \<open>\<^verbatim>\<open>JSON.stringify(updatedHistory)\<close>, the argument \<open>stringify\<close> of \<open>handleSearch\<close>.\<close>

definition stringifyHistory :: "StoredSearch list \<Rightarrow> string" where
  "stringifyHistory history = JSON_stringify (js_of_history history)"

subsection \<open>Reading: the tokens\<close>

datatype token =
    TLBrace | TRBrace | TLBracket | TRBracket | TComma | TColon
  | TString string | TNumber rat | TTrue | TFalse | TNull


















subsection \<open>Reading: the values\<close>

text \<open>
  The parser reads the tokens from left to right with a stack of the arrays and objects
  that are still open. \<open>InMember kvs k\<close> is an object that has read the key \<open>k\<close> and
  waits for its value.
\<close>

datatype frame =
    InArray "rat json list"
  | InObject "(string \<times> rat json) list"
  | InMember "(string \<times> rat json) list" string

datatype mode =
    Value | ValueOrClose | KeyOrClose | Key | Colon | Next | Finished "rat json" | Failed

text \<open>
  Defining a property: a key that is already there keeps its place and takes the new
  value, as a repeated key of a JSON object does.
\<close>

definition obj_put :: "(string \<times> 'v) list \<Rightarrow> string \<Rightarrow> 'v \<Rightarrow> (string \<times> 'v) list" where
  "obj_put kvs k v =
     (if k \<in> set (map fst kvs) then map (\<lambda>(k', v'). if k' = k then (k', v) else (k', v')) kvs
      else kvs @ [(k, v)])"

definition deliver :: "rat json \<Rightarrow> frame list \<Rightarrow> mode \<times> frame list" where
  "deliver v stack =
     (case stack of
        [] \<Rightarrow> (Finished v, [])
      | InArray acc # below \<Rightarrow> (Next, InArray (acc @ [v]) # below)
      | InMember kvs k # below \<Rightarrow> (Next, InObject (obj_put kvs k v) # below)
      | InObject kvs # below \<Rightarrow> (Failed, stack))"

definition start_value :: "token \<Rightarrow> frame list \<Rightarrow> mode \<times> frame list" where
  "start_value t stack =
     (case t of
        TLBracket \<Rightarrow> (ValueOrClose, InArray [] # stack)
      | TLBrace \<Rightarrow> (KeyOrClose, InObject [] # stack)
      | TString s \<Rightarrow> deliver (JString s) stack
      | TNumber r \<Rightarrow> deliver (JNumber r) stack
      | TTrue \<Rightarrow> deliver (JBool True) stack
      | TFalse \<Rightarrow> deliver (JBool False) stack
      | TNull \<Rightarrow> deliver JNull stack
      | _ \<Rightarrow> (Failed, stack))"

definition start_key :: "token \<Rightarrow> frame list \<Rightarrow> mode \<times> frame list" where
  "start_key t stack =
     (case (t, stack) of
        (TString k, InObject kvs # below) \<Rightarrow> (Colon, InMember kvs k # below)
      | _ \<Rightarrow> (Failed, stack))"

definition close_array :: "frame list \<Rightarrow> mode \<times> frame list" where
  "close_array stack =
     (case stack of InArray acc # below \<Rightarrow> deliver (JArray acc) below | _ \<Rightarrow> (Failed, stack))"

definition close_object :: "frame list \<Rightarrow> mode \<times> frame list" where
  "close_object stack =
     (case stack of InObject kvs # below \<Rightarrow> deliver (JObject kvs) below | _ \<Rightarrow> (Failed, stack))"

definition step :: "mode \<times> frame list \<Rightarrow> token \<Rightarrow> mode \<times> frame list" where
  "step st t =
     (case st of (m, stack) \<Rightarrow>
        (case m of
           Value \<Rightarrow> start_value t stack
         | ValueOrClose \<Rightarrow> if t = TRBracket then close_array stack else start_value t stack
         | KeyOrClose \<Rightarrow> if t = TRBrace then close_object stack else start_key t stack
         | Key \<Rightarrow> start_key t stack
         | Colon \<Rightarrow> if t = TColon then (Value, stack) else (Failed, stack)
         | Next \<Rightarrow>
             (case stack of
                InArray acc # below \<Rightarrow>
                  if t = TComma then (Value, stack)
                  else if t = TRBracket then close_array stack
                  else (Failed, stack)
              | InObject kvs # below \<Rightarrow>
                  if t = TComma then (Key, stack)
                  else if t = TRBrace then close_object stack
                  else (Failed, stack)
              | _ \<Rightarrow> (Failed, stack))
         | Finished v \<Rightarrow> (Failed, stack)
         | Failed \<Rightarrow> (Failed, stack)))"

definition run :: "mode \<times> frame list \<Rightarrow> token list \<Rightarrow> mode \<times> frame list" where
  "run st ts = foldl step st ts"



subsection \<open>Loading the stored history\<close>



subsection \<open>The tokens a written value consists of\<close>

fun join_tokens :: "token list list \<Rightarrow> token list" where
  "join_tokens [] = []"
| "join_tokens [x] = x"
| "join_tokens (x # y # ys) = x @ TComma # join_tokens (y # ys)"

fun tokens_of :: "int json \<Rightarrow> token list" where
  "tokens_of JNull = [TNull]"
| "tokens_of (JBool flag) = [if flag then TTrue else TFalse]"
| "tokens_of (JNumber n) = [TNumber (of_int n)]"
| "tokens_of (JString s) = [TString s]"
| "tokens_of (JArray xs) = TLBracket # join_tokens (map tokens_of xs) @ [TRBracket]"
| "tokens_of (JObject kvs) =
     TLBrace # join_tokens (map (\<lambda>(k, v). TString k # TColon # tokens_of v) kvs) @ [TRBrace]"




section \<open>The updater, the search and the chart series\<close>

lemma length_slice_from_end: "length (slice_from_end n arr) = min n (length arr)"
  by (simp add: slice_from_end_def)

lemma length_updatedHistory: "length (updatedHistory h e) = min 7 (Suc (length h))"
  by (simp add: updatedHistory_def length_slice_from_end)

lemma updatedHistory_short: "length h < 7 \<Longrightarrow> updatedHistory h e = h @ [e]"
  by (simp add: updatedHistory_def slice_from_end_def)

lemma updatedHistory_drop: "updatedHistory h e = drop (length h - 6) h @ [e]"
  by (simp add: updatedHistory_def slice_from_end_def Suc_diff_le)

lemma last_updatedHistory: "last (updatedHistory h e) = e"
  by (simp add: updatedHistory_drop)

lemma updatedHistory_full: "length h = 7 \<Longrightarrow> updatedHistory h e = tl h @ [e]"
  by (simp add: updatedHistory_drop drop_Suc)

lemma updatedHistory_not_Nil: "updatedHistory h e \<noteq> []"
  by (simp add: updatedHistory_drop)

lemma slice_from_end_absorb:
  "slice_from_end n (slice_from_end n xs @ ys) = slice_from_end n (xs @ ys)"
proof (cases "length xs \<le> n")
  case True
  then show ?thesis by (simp add: slice_from_end_def)
next
  case False
  then have "length xs - n + n = length xs" by simp
  moreover have "length xs + length ys - length xs + (length xs - n) = length xs + length ys - n"
    using False by simp
  ultimately show ?thesis using False by (simp add: slice_from_end_def)
qed

lemma foldl_updatedHistory: "foldl updatedHistory [] es = slice_from_end 7 es"
proof (induction es rule: rev_induct)
  case Nil
  show ?case by (simp add: slice_from_end_def)
next
  case (snoc e es)
  then show ?case
    by (simp add: updatedHistory_def slice_from_end_absorb)
qed

lemma searchHistory_handleSearch_Some:
  "searchHistory (handleSearch stringify ai (Some data) now st) =
     updatedHistory (searchHistory st) (newHistoryEntry now data)"
  by (simp add: handleSearch_def getTripData_def Let_def split: sum.splits)

lemma searchHistory_handleSearch_None:
  "searchHistory (handleSearch stringify ai None now st) = searchHistory st"
  by (simp add: handleSearch_def getTripData_def Let_def)

lemma length_searchHistory_handleSearch:
  "length (searchHistory st) \<le> 7 \<Longrightarrow> length (searchHistory (handleSearch stringify ai response now st)) \<le> 7"
  by (cases response) (simp_all add: searchHistory_handleSearch_Some searchHistory_handleSearch_None length_updatedHistory)

lemma length_searchHistory_searches:
  "length (searchHistory st) \<le> 7 \<Longrightarrow> length (searchHistory (searches stringify ai runs st)) \<le> 7"
  unfolding searches_def
  by (induction runs arbitrary: st) (auto simp: length_searchHistory_handleSearch)

lemma searches_Nil: "searches stringify ai [] st = st"
  by (simp add: searches_def)

lemma searches_Cons:
  "searches stringify ai ((response, now) # runs) st =
     searches stringify ai runs (handleSearch stringify ai response now st)"
  by (simp add: searches_def)

lemma searchHistory_searches_Some:
  "searchHistory (searches stringify ai (map (\<lambda>(data, now). (Some data, now)) obs) st) =
     foldl updatedHistory (searchHistory st) (map (\<lambda>(data, now). newHistoryEntry now data) obs)"
  by (induction obs arbitrary: st)
    (auto simp: searches_Nil searches_Cons searchHistory_handleSearch_Some)

lemma totalFlightPrice_searchOf: "totalFlightPrice (searchOf now p) = p"
  by (simp add: searchOf_def newHistoryEntry_def tripOf_def flightsTotal_def)

lemma timestamp_searchOf: "timestamp (searchOf now p) = now"
  by (simp add: searchOf_def newHistoryEntry_def)

lemma previousPrice_last: "h \<noteq> [] \<Longrightarrow> previousPrice h = Some (totalFlightPrice (last h))"
  by (simp add: previousPrice_def last_conv_nth)

lemma length_priceHistoryForChart: "length (priceHistoryForChart h) = length h"
  by (simp add: priceHistoryForChart_def)

lemma nth_priceHistoryForChart:
  "i < length h \<Longrightarrow> priceHistoryForChart h ! i = chartPoint h i (h ! i)"
  by (simp add: priceHistoryForChart_def)

lemma change_chartPoint_0: "change (chartPoint arr 0 item) = None"
  by (simp add: chartPoint_def)

lemma change_chartPoint_pos:
  "0 < i \<Longrightarrow> change (chartPoint arr i item) = Some (totalFlightPrice item - totalFlightPrice (arr ! (i - 1)))"
  by (simp add: chartPoint_def)


section \<open>Capacity\<close>

text \<open>
  Claim C1 (capacity). Start from the empty history and run any sequence of searches.
  The history then holds at most 7 entries, and so it does after one more successful search.
  The last entry is then the one just built. If the history held 7 entries, the new history
  is the old one without its first entry, followed by the new entry; if it held fewer, the
  new entry is added and nothing is removed.
\<close>

theorem capacity_invariant:
  "length (searchHistory (searches stringify ai runs (initialApp stored))) \<le> 7
   \<and> length (searchHistory (handleSearch stringify ai (Some data) now
         (searches stringify ai runs (initialApp stored)))) \<le> 7
   \<and> last (searchHistory (handleSearch stringify ai (Some data) now
         (searches stringify ai runs (initialApp stored)))) = newHistoryEntry now data
   \<and> (length (searchHistory (searches stringify ai runs (initialApp stored))) = 7 \<longrightarrow>
        searchHistory (handleSearch stringify ai (Some data) now
          (searches stringify ai runs (initialApp stored)))
        = tl (searchHistory (searches stringify ai runs (initialApp stored))) @ [newHistoryEntry now data])
   \<and> (length (searchHistory (searches stringify ai runs (initialApp stored))) < 7 \<longrightarrow>
        searchHistory (handleSearch stringify ai (Some data) now
          (searches stringify ai runs (initialApp stored)))
        = searchHistory (searches stringify ai runs (initialApp stored)) @ [newHistoryEntry now data])"
proof -
  have "length (searchHistory (initialApp stored)) \<le> 7"
    by (simp add: initialApp_def)
  then have "length (searchHistory (searches stringify ai runs (initialApp stored))) \<le> 7"
    by (rule length_searchHistory_searches)
  then show ?thesis
    by (simp add: searchHistory_handleSearch_Some length_updatedHistory last_updatedHistory
        updatedHistory_full updatedHistory_short)
qed

theorem capacity_invariant_witness:
  "length (searchHistory (searches (\<lambda>h. []) (\<lambda>p. None)
       [(Some (tripOf 200), ''t1''), (Some (tripOf 180), ''t2''), (Some (tripOf 180), ''t3''),
        (Some (tripOf 250), ''t4''), (Some (tripOf 260), ''t5''), (Some (tripOf 240), ''t6''),
        (Some (tripOf 230), ''t7'')] (initialApp None))) = 7
   \<and> searchHistory (handleSearch (\<lambda>h. []) (\<lambda>p. None) (Some (tripOf 210)) ''t8''
       (searches (\<lambda>h. []) (\<lambda>p. None)
         [(Some (tripOf 200), ''t1''), (Some (tripOf 180), ''t2''), (Some (tripOf 180), ''t3''),
          (Some (tripOf 250), ''t4''), (Some (tripOf 260), ''t5''), (Some (tripOf 240), ''t6''),
          (Some (tripOf 230), ''t7'')] (initialApp None)))
     = [searchOf ''t2'' 180, searchOf ''t3'' 180, searchOf ''t4'' 250, searchOf ''t5'' 260,
        searchOf ''t6'' 240, searchOf ''t7'' 230, searchOf ''t8'' 210]"
  using capacity_invariant [of "\<lambda>h. []" "\<lambda>p. None"
      "[(Some (tripOf 200), ''t1''), (Some (tripOf 180), ''t2''), (Some (tripOf 180), ''t3''),
        (Some (tripOf 250), ''t4''), (Some (tripOf 260), ''t5''), (Some (tripOf 240), ''t6''),
        (Some (tripOf 230), ''t7'')]" None "tripOf 210" "''t8''"]
  by (simp add: searches_def searchHistory_handleSearch_Some updatedHistory_def
      slice_from_end_def initialApp_def searchOf_def)


section \<open>Deltas\<close>

lemma changes_of_four:
  assumes "map totalFlightPrice h = [a, b, c, d]"
  shows "map change (priceHistoryForChart h) = [None, Some (b - a), Some (c - b), Some (d - c)]"
proof -
  from assms obtain w x y z where h: "h = [w, x, y, z]"
    by (auto simp: map_eq_Cons_conv)
  with assms show ?thesis
    by (simp add: priceHistoryForChart_def upt_rec change_chartPoint_0 change_chartPoint_pos)
qed

text \<open>
  Claim C2 (deltas). The chart series has one point for each stored search, in the
  stored order, with that search's timestamp and price. The change of the first point is
  absent. The change of every later point is its price minus the price stored just before
  it. A history with the prices 100, 120, 120, 90 gives the changes absent, 20, 0, -30.
\<close>

theorem delta_correctness:
  "length (priceHistoryForChart h) = length h
   \<and> (\<forall>i < length h. date (priceHistoryForChart h ! i) = timestamp (h ! i)
         \<and> price (priceHistoryForChart h ! i) = totalFlightPrice (h ! i))
   \<and> (h \<noteq> [] \<longrightarrow> change (priceHistoryForChart h ! 0) = None)
   \<and> (\<forall>i. 0 < i \<and> i < length h \<longrightarrow>
         change (priceHistoryForChart h ! i)
           = Some (totalFlightPrice (h ! i) - totalFlightPrice (h ! (i - 1))))
   \<and> (map totalFlightPrice h = [100, 120, 120, 90] \<longrightarrow>
         map change (priceHistoryForChart h) = [None, Some 20, Some 0, Some (- 30)])"
proof (intro conjI allI impI)
  show "length (priceHistoryForChart h) = length h"
    by (rule length_priceHistoryForChart)
next
  fix i assume "i < length h"
  then show "date (priceHistoryForChart h ! i) = timestamp (h ! i)"
    and "price (priceHistoryForChart h ! i) = totalFlightPrice (h ! i)"
    by (simp_all add: nth_priceHistoryForChart chartPoint_def Let_def)
next
  assume "h \<noteq> []"
  then show "change (priceHistoryForChart h ! 0) = None"
    by (simp add: nth_priceHistoryForChart change_chartPoint_0)
next
  fix i assume "0 < i \<and> i < length h"
  then show "change (priceHistoryForChart h ! i)
      = Some (totalFlightPrice (h ! i) - totalFlightPrice (h ! (i - 1)))"
    by (simp add: nth_priceHistoryForChart change_chartPoint_pos)
next
  assume "map totalFlightPrice h = [100, 120, 120, 90]"
  then show "map change (priceHistoryForChart h) = [None, Some 20, Some 0, Some (- 30)]"
    using changes_of_four [of h 100 120 120 90] by simp
qed

theorem delta_correctness_witness:
  "[searchOf ''2026-01-01T10:00:00.000Z'' 100, searchOf ''2026-01-02T10:00:00.000Z'' 120,
    searchOf ''2026-01-03T10:00:00.000Z'' 120, searchOf ''2026-01-04T10:00:00.000Z'' 90] \<noteq> []
   \<and> map totalFlightPrice
       [searchOf ''2026-01-01T10:00:00.000Z'' 100, searchOf ''2026-01-02T10:00:00.000Z'' 120,
        searchOf ''2026-01-03T10:00:00.000Z'' 120, searchOf ''2026-01-04T10:00:00.000Z'' 90]
     = [100, 120, 120, 90]
   \<and> map change (priceHistoryForChart
       [searchOf ''2026-01-01T10:00:00.000Z'' 100, searchOf ''2026-01-02T10:00:00.000Z'' 120,
        searchOf ''2026-01-03T10:00:00.000Z'' 120, searchOf ''2026-01-04T10:00:00.000Z'' 90])
     = [None, Some 20, Some 0, Some (- 30)]
   \<and> change (priceHistoryForChart
       [searchOf ''2026-01-01T10:00:00.000Z'' 100, searchOf ''2026-01-02T10:00:00.000Z'' 120,
        searchOf ''2026-01-03T10:00:00.000Z'' 120, searchOf ''2026-01-04T10:00:00.000Z'' 90] ! 3)
     = Some (- 30)
   \<and> date (priceHistoryForChart
       [searchOf ''2026-01-01T10:00:00.000Z'' 100, searchOf ''2026-01-02T10:00:00.000Z'' 120,
        searchOf ''2026-01-03T10:00:00.000Z'' 120, searchOf ''2026-01-04T10:00:00.000Z'' 90] ! 1)
     = ''2026-01-02T10:00:00.000Z''"
  using delta_correctness [of
      "[searchOf ''2026-01-01T10:00:00.000Z'' 100, searchOf ''2026-01-02T10:00:00.000Z'' 120,
        searchOf ''2026-01-03T10:00:00.000Z'' 120, searchOf ''2026-01-04T10:00:00.000Z'' 90]"]
  by (simp add: totalFlightPrice_searchOf timestamp_searchOf)


section \<open>A session of eight searches\<close>

lemma changes_of_seven:
  assumes "map totalFlightPrice h = [a, b, c, d, e, f, g]"
  shows "map change (priceHistoryForChart h)
    = [None, Some (b - a), Some (c - b), Some (d - c), Some (e - d), Some (f - e), Some (g - f)]"
proof -
  from assms obtain t u v w x y z where h: "h = [t, u, v, w, x, y, z]"
    by (auto simp: map_eq_Cons_conv)
  with assms show ?thesis
    by (simp add: priceHistoryForChart_def upt_rec change_chartPoint_0 change_chartPoint_pos)
qed

text \<open>
  Claim C3 (scenario). From the empty history, eight successful searches whose flight
  totals are 200, 180, 180, 250, 260, 240, 230, 210 leave the entries of the last seven
  searches, with the prices 180, 180, 250, 260, 240, 230, 210. The chart series of that
  history has the changes absent, 0, 70, 10, -20, -10, -20.
\<close>

theorem scenario_eight_searches:
  assumes "map flightsTotal [d1, d2, d3, d4, d5, d6, d7, d8]
             = [200, 180, 180, 250, 260, 240, 230, 210]"
  shows "searchHistory (searches stringify ai
            [(Some d1, t1), (Some d2, t2), (Some d3, t3), (Some d4, t4),
             (Some d5, t5), (Some d6, t6), (Some d7, t7), (Some d8, t8)] (initialApp stored))
          = [newHistoryEntry t2 d2, newHistoryEntry t3 d3, newHistoryEntry t4 d4,
             newHistoryEntry t5 d5, newHistoryEntry t6 d6, newHistoryEntry t7 d7,
             newHistoryEntry t8 d8]
       \<and> map totalFlightPrice (searchHistory (searches stringify ai
            [(Some d1, t1), (Some d2, t2), (Some d3, t3), (Some d4, t4),
             (Some d5, t5), (Some d6, t6), (Some d7, t7), (Some d8, t8)] (initialApp stored)))
          = [180, 180, 250, 260, 240, 230, 210]
       \<and> map change (priceHistoryForChart (searchHistory (searches stringify ai
            [(Some d1, t1), (Some d2, t2), (Some d3, t3), (Some d4, t4),
             (Some d5, t5), (Some d6, t6), (Some d7, t7), (Some d8, t8)] (initialApp stored))))
          = [None, Some 0, Some 70, Some 10, Some (- 20), Some (- 10), Some (- 20)]"
proof -
  let ?st = "searches stringify ai
            [(Some d1, t1), (Some d2, t2), (Some d3, t3), (Some d4, t4),
             (Some d5, t5), (Some d6, t6), (Some d7, t7), (Some d8, t8)] (initialApp stored)"
  have hist: "searchHistory ?st
          = [newHistoryEntry t2 d2, newHistoryEntry t3 d3, newHistoryEntry t4 d4,
             newHistoryEntry t5 d5, newHistoryEntry t6 d6, newHistoryEntry t7 d7,
             newHistoryEntry t8 d8]"
    by (simp add: searches_Cons searches_Nil searchHistory_handleSearch_Some updatedHistory_def
        slice_from_end_def initialApp_def)
  have prices: "map totalFlightPrice (searchHistory ?st) = [180, 180, 250, 260, 240, 230, 210]"
    using assms by (simp add: hist newHistoryEntry_def)
  have "map change (priceHistoryForChart (searchHistory ?st))
          = [None, Some 0, Some 70, Some 10, Some (- 20), Some (- 10), Some (- 20)]"
    using changes_of_seven [OF prices] by simp
  with hist prices show ?thesis by simp
qed

theorem scenario_eight_searches_witness:
  "map flightsTotal [tripOf 200, tripOf 180, tripOf 180, tripOf 250, tripOf 260, tripOf 240,
       tripOf 230, tripOf 210] = [200, 180, 180, 250, 260, 240, 230, 210]
   \<and> map totalFlightPrice (searchHistory (searches (\<lambda>h. []) (\<lambda>p. None)
        [(Some (tripOf 200), ''t1''), (Some (tripOf 180), ''t2''), (Some (tripOf 180), ''t3''),
         (Some (tripOf 250), ''t4''), (Some (tripOf 260), ''t5''), (Some (tripOf 240), ''t6''),
         (Some (tripOf 230), ''t7''), (Some (tripOf 210), ''t8'')] (initialApp None)))
     = [180, 180, 250, 260, 240, 230, 210]
   \<and> map change (priceHistoryForChart (searchHistory (searches (\<lambda>h. []) (\<lambda>p. None)
        [(Some (tripOf 200), ''t1''), (Some (tripOf 180), ''t2''), (Some (tripOf 180), ''t3''),
         (Some (tripOf 250), ''t4''), (Some (tripOf 260), ''t5''), (Some (tripOf 240), ''t6''),
         (Some (tripOf 230), ''t7''), (Some (tripOf 210), ''t8'')] (initialApp None))))
     = [None, Some 0, Some 70, Some 10, Some (- 20), Some (- 10), Some (- 20)]"
proof -
  have h: "map flightsTotal [tripOf 200, tripOf 180, tripOf 180, tripOf 250, tripOf 260,
       tripOf 240, tripOf 230, tripOf 210] = [200, 180, 180, 250, 260, 240, 230, 210]"
    by (simp add: tripOf_def flightsTotal_def)
  show ?thesis
    using h scenario_eight_searches [OF h, of "\<lambda>h. []" "\<lambda>p. None" "''t1''" "''t2''" "''t3''"
        "''t4''" "''t5''" "''t6''" "''t7''" "''t8''" None]
    by blast
qed


section \<open>The latest price\<close>

text \<open>
  Claim C5 (latest price). On a history that is not empty the previous price is the price
  of the last entry; after an append it is the price of the appended entry, and after a
  successful search it is that search's flight total. On the empty history it is absent,
  and the chart series of the empty history is empty.
\<close>

theorem latest_reference_price:
  "(h \<noteq> [] \<longrightarrow> previousPrice h = Some (totalFlightPrice (last h)))
   \<and> previousPrice (updatedHistory h e) = Some (totalFlightPrice e)
   \<and> previousPrice (searchHistory (handleSearch stringify ai (Some data) now st))
       = Some (flightsTotal data)
   \<and> previousPrice [] = None
   \<and> priceHistoryForChart [] = []"
proof -
  have "previousPrice (updatedHistory h' e') = Some (totalFlightPrice e')" for h' e'
    using previousPrice_last [OF updatedHistory_not_Nil, of h' e']
    by (simp add: last_updatedHistory)
  then show ?thesis
    by (simp add: previousPrice_last searchHistory_handleSearch_Some)
      (simp add: previousPrice_def priceHistoryForChart_def newHistoryEntry_def)
qed

theorem latest_reference_price_witness:
  "[searchOf ''t1'' 200, searchOf ''t2'' 180] \<noteq> []
   \<and> previousPrice [searchOf ''t1'' 200, searchOf ''t2'' 180] = Some 180"
  using latest_reference_price [of "[searchOf ''t1'' 200, searchOf ''t2'' 180]"]
  by (simp add: totalFlightPrice_searchOf)


section \<open>Absent and zero\<close>

text \<open>
  Claim C6 (absent is not zero). The first point's change is absent. A later point whose
  price equals the price before it has the change 0. Absent and 0 are different values of
  the field. The table shows a dash for absent and the formatted amount 0 for zero, which
  differ as soon as the formatted 0 is not itself a dash; the tooltip text differs for the
  two whatever the formatting is.
\<close>

theorem absent_versus_zero:
  "(h \<noteq> [] \<longrightarrow> change (priceHistoryForChart h ! 0) = None)
   \<and> (\<forall>i. 0 < i \<and> i < length h \<and> totalFlightPrice (h ! i) = totalFlightPrice (h ! (i - 1)) \<longrightarrow>
         change (priceHistoryForChart h ! i) = Some 0)
   \<and> (None :: int option) \<noteq> Some 0
   \<and> renderChange formatCurrency None = Span None [''-'']
   \<and> renderChange formatCurrency (Some 0) = Span None [formatCurrency 0]
   \<and> (formatCurrency 0 \<noteq> ''-'' \<longrightarrow>
         renderChange formatCurrency None \<noteq> renderChange formatCurrency (Some 0))
   \<and> changeText formatCurrency None \<noteq> changeText formatCurrency (Some 0)"
  by (auto simp: nth_priceHistoryForChart change_chartPoint_0 change_chartPoint_pos
      renderChange_def changeText_def)

theorem absent_versus_zero_witness:
  "[searchOf ''t1'' 180, searchOf ''t2'' 180] \<noteq> []
   \<and> map change (priceHistoryForChart [searchOf ''t1'' 180, searchOf ''t2'' 180]) = [None, Some 0]
   \<and> (\<lambda>n. if n = 0 then ''R$ 0'' else ''R$ n'') (0::int) \<noteq> ''-''
   \<and> renderChange (\<lambda>n. if n = 0 then ''R$ 0'' else ''R$ n'') None
       \<noteq> renderChange (\<lambda>n. if n = 0 then ''R$ 0'' else ''R$ n'') (Some 0)"
  using absent_versus_zero [of "[searchOf ''t1'' 180, searchOf ''t2'' 180]"
      "\<lambda>n. if n = 0 then ''R$ 0'' else ''R$ n''"]
  by (simp add: priceHistoryForChart_def upt_rec change_chartPoint_0 change_chartPoint_pos
      totalFlightPrice_searchOf)


section \<open>A failed search\<close>

text \<open>
  When the trip call itself fails, the search leaves the history and the stored item as
  they were, shows the default error message, shows no results and ends the loading state.
\<close>

lemma trip_call_failure_keeps_history:
  assumes "getTripData response = Inl msg"
  shows "searchHistory (handleSearch stringify ai response now st) = searchHistory st
       \<and> localStorage (handleSearch stringify ai response now st) = localStorage st
       \<and> errorMessage (handleSearch stringify ai response now st) = Some errorDefault
       \<and> tripResults (handleSearch stringify ai response now st) = None
       \<and> isLoading (handleSearch stringify ai response now st) = False"
proof -
  from assms have "response = None" and "msg = errorDefault"
    by (auto simp: getTripData_def split: option.splits)
  then show ?thesis
    by (simp add: handleSearch_def getTripData_def errorDefault_def)
qed

lemma trip_call_failure_keeps_history_example:
  "getTripData None = Inl errorDefault
   \<and> searchHistory (handleSearch (\<lambda>h. []) (\<lambda>p. None) None ''t3''
        ((initialApp None)\<lparr>searchHistory := [searchOf ''t1'' 200, searchOf ''t2'' 180]\<rparr>))
      = [searchOf ''t1'' 200, searchOf ''t2'' 180]
   \<and> errorMessage (handleSearch (\<lambda>h. []) (\<lambda>p. None) None ''t3''
        ((initialApp None)\<lparr>searchHistory := [searchOf ''t1'' 200, searchOf ''t2'' 180]\<rparr>))
      = Some errorDefault"
proof -
  have h: "getTripData None = Inl errorDefault"
    by (simp add: getTripData_def)
  show ?thesis
    using h trip_call_failure_keeps_history [OF h, of "\<lambda>h. []" "\<lambda>p. None" "''t3''"
        "(initialApp None)\<lparr>searchHistory := [searchOf ''t1'' 200, searchOf ''t2'' 180]\<rparr>"]
    by simp
qed

text \<open>
  The trip call is not the only place where the search can fail. A trip without flights
  passes the trip call; the entry is appended and stored (lines 510 to 514); only then
  does \<^verbatim>\<open>await Promise.all\<close> (line 516) meet the rejection of the WhatsApp summary,
  whose prompt reads the last flight at line 230 outside its \<^verbatim>\<open>try\<close>, and the
  \<^verbatim>\<open>catch\<close> at line 520 shows the error.
\<close>

lemma empty_flights_fail_after_append:
  assumes "flights data = []"
  shows "searchHistory (handleSearch stringify ai (Some data) now st)
           = updatedHistory (searchHistory st) (newHistoryEntry now data)
       \<and> localStorage (handleSearch stringify ai (Some data) now st)
           = Some (stringify (updatedHistory (searchHistory st) (newHistoryEntry now data)))
       \<and> errorMessage (handleSearch stringify ai (Some data) now st) = Some typeErrorMessage
       \<and> emailSummary (handleSearch stringify ai (Some data) now st) = None
       \<and> whatsappSummary (handleSearch stringify ai (Some data) now st) = None"
  using assms
  by (simp add: handleSearch_def getTripData_def getWhatsAppSummary_def Let_def
      typeErrorMessage_def)

text \<open>
  Claim C8 (failed search). A search that fails must leave the history as it was and show
  an error instead of adding an entry. The code breaks this for a trip without flights:
  after one stored search, a search that returns such a trip ends with the TypeError as
  its error message and with no summary, and yet the history has grown by the new entry
  and the store holds the text of the grown history.
\<close>

theorem search_without_flights_fails_after_append:
  "getTripData (Some \<lparr>flights = [], accommodations = []\<rparr>)
     = Inr \<lparr>flights = [], accommodations = []\<rparr>
   \<and> searchHistory (handleSearch stringifyHistory (\<lambda>p. Some ''ok'')
        (Some \<lparr>flights = [], accommodations = []\<rparr>) ''2026-01-02T10:00:00.000Z''
        ((initialApp None)\<lparr>searchHistory := [searchOf ''2026-01-01T10:00:00.000Z'' 200]\<rparr>))
      = [searchOf ''2026-01-01T10:00:00.000Z'' 200,
         \<lparr>timestamp = ''2026-01-02T10:00:00.000Z'', totalFlightPrice = 0,
          results = \<lparr>flights = [], accommodations = []\<rparr>\<rparr>]
   \<and> localStorage (handleSearch stringifyHistory (\<lambda>p. Some ''ok'')
        (Some \<lparr>flights = [], accommodations = []\<rparr>) ''2026-01-02T10:00:00.000Z''
        ((initialApp None)\<lparr>searchHistory := [searchOf ''2026-01-01T10:00:00.000Z'' 200]\<rparr>))
      = Some (stringifyHistory
         [searchOf ''2026-01-01T10:00:00.000Z'' 200,
          \<lparr>timestamp = ''2026-01-02T10:00:00.000Z'', totalFlightPrice = 0,
           results = \<lparr>flights = [], accommodations = []\<rparr>\<rparr>])
   \<and> errorMessage (handleSearch stringifyHistory (\<lambda>p. Some ''ok'')
        (Some \<lparr>flights = [], accommodations = []\<rparr>) ''2026-01-02T10:00:00.000Z''
        ((initialApp None)\<lparr>searchHistory := [searchOf ''2026-01-01T10:00:00.000Z'' 200]\<rparr>))
      = Some typeErrorMessage
   \<and> emailSummary (handleSearch stringifyHistory (\<lambda>p. Some ''ok'')
        (Some \<lparr>flights = [], accommodations = []\<rparr>) ''2026-01-02T10:00:00.000Z''
        ((initialApp None)\<lparr>searchHistory := [searchOf ''2026-01-01T10:00:00.000Z'' 200]\<rparr>))
      = None
   \<and> whatsappSummary (handleSearch stringifyHistory (\<lambda>p. Some ''ok'')
        (Some \<lparr>flights = [], accommodations = []\<rparr>) ''2026-01-02T10:00:00.000Z''
        ((initialApp None)\<lparr>searchHistory := [searchOf ''2026-01-01T10:00:00.000Z'' 200]\<rparr>))
      = None
   \<and> searchHistory ((initialApp None)\<lparr>searchHistory := [searchOf ''2026-01-01T10:00:00.000Z'' 200]\<rparr>)
      = [searchOf ''2026-01-01T10:00:00.000Z'' 200]
   \<and> localStorage ((initialApp None)\<lparr>searchHistory := [searchOf ''2026-01-01T10:00:00.000Z'' 200]\<rparr>)
      = None"
  by (simp add: empty_flights_fail_after_append getTripData_def updatedHistory_def
      slice_from_end_def newHistoryEntry_def flightsTotal_def initialApp_def)


section \<open>Order of the entries\<close>

lemma sorted_timestamps_updatedHistory:
  assumes "sorted (map timestamp h)" and "h \<noteq> [] \<longrightarrow> timestamp (last h) \<le> timestamp e"
  shows "sorted (map timestamp (updatedHistory h e))"
proof -
  have all: "\<forall>x \<in> set h. timestamp x \<le> timestamp e"
  proof
    fix x assume x: "x \<in> set h"
    then have ne: "h \<noteq> []" by auto
    from x obtain i where i: "i < length h" "h ! i = x"
      by (auto simp: in_set_conv_nth)
    have "map timestamp h ! i \<le> map timestamp h ! (length h - 1)"
      using assms(1) i(1) by (intro sorted_nth_mono) auto
    then have "timestamp x \<le> timestamp (last h)"
      using i ne by (simp add: last_conv_nth)
    with assms(2) ne show "timestamp x \<le> timestamp e" by auto
  qed
  have "sorted (map timestamp (drop (length h - 6) h))"
    using assms(1) by (simp add: sorted_wrt_drop drop_map [symmetric] del: drop_map)
  moreover have "\<forall>x \<in> set (drop (length h - 6) h). timestamp x \<le> timestamp e"
    using all by (meson in_set_dropD)
  ultimately show ?thesis
    by (simp add: updatedHistory_drop sorted_append)
qed

lemma appended_in_order_sorted: "appended_in_order h \<Longrightarrow> sorted (map timestamp h)"
  by (induction rule: appended_in_order.induct) (simp_all add: sorted_timestamps_updatedHistory)

text \<open>
  Claim C9 (order). A history built from the empty one by appends, each with a timestamp
  not before the last stored one, is sorted by timestamp. An append keeps a final part of
  the old history, entries and order unchanged, and puts the new entry after it.
\<close>

theorem order_invariant:
  "(appended_in_order h \<longrightarrow> sorted (map timestamp h))
   \<and> (\<exists>k. updatedHistory h e = drop k h @ [e])"
  using appended_in_order_sorted updatedHistory_drop by blast

theorem order_invariant_witness:
  "appended_in_order (updatedHistory (updatedHistory [] (searchOf ''2026-01-01T10:00:00.000Z'' 200))
      (searchOf ''2026-01-02T09:30:00.000Z'' 180))
   \<and> sorted (map timestamp (updatedHistory (updatedHistory [] (searchOf ''2026-01-01T10:00:00.000Z'' 200))
      (searchOf ''2026-01-02T09:30:00.000Z'' 180)))
   \<and> map timestamp (updatedHistory (updatedHistory [] (searchOf ''2026-01-01T10:00:00.000Z'' 200))
      (searchOf ''2026-01-02T09:30:00.000Z'' 180))
     = [''2026-01-01T10:00:00.000Z'', ''2026-01-02T09:30:00.000Z'']"
proof -
  have 1: "appended_in_order (updatedHistory [] (searchOf ''2026-01-01T10:00:00.000Z'' 200))"
    by (rule appended_in_order.append) (simp_all add: appended_in_order.empty)
  have 2: "appended_in_order (updatedHistory (updatedHistory [] (searchOf ''2026-01-01T10:00:00.000Z'' 200))
      (searchOf ''2026-01-02T09:30:00.000Z'' 180))"
    by (rule appended_in_order.append [OF 1])
      (simp add: updatedHistory_def slice_from_end_def timestamp_searchOf)
  show ?thesis
    using 2 order_invariant [of "updatedHistory (updatedHistory [] (searchOf ''2026-01-01T10:00:00.000Z'' 200))
      (searchOf ''2026-01-02T09:30:00.000Z'' 180)"]
    by (simp add: updatedHistory_def slice_from_end_def timestamp_searchOf)
qed


section \<open>A previous price of zero\<close>

text \<open>
  Claim C10 (previous price 0). When the last stored price is 0, the previous price is the
  number 0, which is not the absent value of the empty history, yet it is falsy: both
  summaries choose the first-search sentence, exactly as for the empty history, and so they
  return what they return for the empty history.
\<close>

theorem zero_price_reads_as_first_search:
  assumes "h \<noteq> []" and "totalFlightPrice (last h) = 0"
  shows "previousPrice h = Some 0
       \<and> previousPrice h \<noteq> previousPrice []
       \<and> \<not> truthy (previousPrice h)
       \<and> emailPriceAnalysis data (previousPrice h) = FirstSearch
       \<and> whatsAppPriceAnalysis data (previousPrice h) = FirstSearch
       \<and> emailPriceAnalysis data (previousPrice h) = emailPriceAnalysis data (previousPrice [])
       \<and> whatsAppPriceAnalysis data (previousPrice h)
           = whatsAppPriceAnalysis data (previousPrice [])
       \<and> getEmailSummary ai data (previousPrice h) = getEmailSummary ai data (previousPrice [])
       \<and> getWhatsAppSummary ai data (previousPrice h)
           = getWhatsAppSummary ai data (previousPrice [])"
proof -
  from assms have p: "previousPrice h = Some 0"
    by (simp add: previousPrice_last)
  have e: "previousPrice [] = None"
    by (simp add: previousPrice_def)
  show ?thesis
    unfolding p e
    by (simp add: truthy_def emailPriceAnalysis_def whatsAppPriceAnalysis_def
        getEmailSummary_def getWhatsAppSummary_def)
qed

theorem zero_price_reads_as_first_search_witness:
  "[searchOf ''t1'' 200, searchOf ''t2'' 0] \<noteq> []
   \<and> totalFlightPrice (last [searchOf ''t1'' 200, searchOf ''t2'' 0]) = 0
   \<and> emailPriceAnalysis (tripOf 150) (previousPrice [searchOf ''t1'' 200, searchOf ''t2'' 0])
       = FirstSearch
   \<and> whatsAppPriceAnalysis (tripOf 150) (previousPrice [searchOf ''t1'' 200, searchOf ''t2'' 0])
       = FirstSearch"
proof -
  have h1: "[searchOf ''t1'' 200, searchOf ''t2'' 0] \<noteq> []" by simp
  have h2: "totalFlightPrice (last [searchOf ''t1'' 200, searchOf ''t2'' 0]) = 0"
    by (simp add: totalFlightPrice_searchOf)
  show ?thesis
    using h1 h2 zero_price_reads_as_first_search [OF h1 h2, of "tripOf 150" "\<lambda>p. None"]
    by blast
qed


section \<open>Reading back what was written\<close>

lemma as_parsed_simps [simp]:
  "as_parsed JNull = JNull"
  "as_parsed (JBool flag) = JBool flag"
  "as_parsed (JNumber n) = JNumber (of_int n)"
  "as_parsed (JString s) = JString s"
  "as_parsed (JArray xs) = JArray (map as_parsed xs)"
  "as_parsed (JObject kvs) = JObject (map (map_prod id as_parsed) kvs)"
  by (simp_all add: as_parsed_def [abs_def] id_def)






































lemma run_Cons: "run st (t # ts) = run (step st t) ts"
  by (simp add: run_def)



lemma step_ValueOrClose:
  "step (ValueOrClose, InArray acc # stack) TRBracket = deliver (JArray acc) stack"
  "t \<noteq> TRBracket \<Longrightarrow> step (ValueOrClose, stack') t = step (Value, stack') t"
  by (simp_all add: step_def close_array_def)






lemma tokens_of_start: "\<exists>t ts. tokens_of v = t # ts \<and> t \<noteq> TRBracket"
  by (cases v) auto

lemma run_ValueOrClose:
  "run (ValueOrClose, stack) (tokens_of v @ ts) = run (Value, stack) (tokens_of v @ ts)"
proof -
  obtain t us where "tokens_of v = t # us" "t \<noteq> TRBracket"
    using tokens_of_start by blast
  then show ?thesis
    by (simp add: run_Cons step_ValueOrClose)
qed








section \<open>The stored history read back\<close>
















end
